theory Spec2Isabelle
  imports Main "HOL-Library.Char_ord"
begin

section \<open>Characters and strings of kaijup.cpp\<close>

text \<open>
  A C++ \<open>std::string\<close> is a \<open>string\<close> (a list of 8-bit characters). The comparisons
  of \<open>isalpha\<close> (kaijup.cpp, lines 330-332) are between a \<open>char&\<close> and the ASCII
  literals \<open>'a'\<close>, \<open>'z'\<close>, \<open>'A'\<close>, \<open>'Z'\<close>. The order on \<open>char\<close> used here is the
  order of the unsigned byte values; where \<open>char\<close> is signed the bytes from 128 on
  are negative, and in both readings they lie outside both intervals.
\<close>

definition isalpha :: "char \<Rightarrow> bool" where
  "isalpha c = ((CHR ''a'' \<le> c \<and> c \<le> CHR ''z'') \<or> (CHR ''A'' \<le> c \<and> c \<le> CHR ''Z''))"

text \<open>The 52 letters of the two ASCII ranges, written out.\<close>

definition ascii_letters :: string where
  "ascii_letters = ''ABCDEFGHIJKLMNOPQRSTUVWXYZabcdefghijklmnopqrstuvwxyz''"

text \<open>
  \<open>strip\<close> (lines 334-341) walks an iterator over the string. The iterator is the
  index \<open>it\<close> of a position in the string, an \<open>int\<close> since \<open>it--\<close> at \<open>begin()\<close>
  steps to the position before the string and the \<open>++it\<close> of the loop header steps
  back. \<open>s.erase(it)\<close> removes the character at the position and keeps the buffer.
  The loop guard is \<open>it != s.end()\<close>, an inequality: the loop is a partial
  function, and \<open>None\<close> stands for a loop that does not return.
\<close>

definition erase_at :: "string \<Rightarrow> int \<Rightarrow> string" where
  "erase_at s it = take (nat it) s @ drop (Suc (nat it)) s"

partial_function (option) strip_from :: "string \<Rightarrow> int \<Rightarrow> string option" where
  "strip_from s it =
     (if it = int (length s) then Some s
      else if \<not> isalpha (s ! nat it) then strip_from (erase_at s it) (it - 1 + 1)
      else strip_from s (it + 1))"

declare strip_from.simps [code]

definition strip :: "string \<Rightarrow> string option" where
  "strip s = strip_from s 0"

text \<open>
  \<open>line_from_file.erase(line_from_file.begin())\<close> (lines 242, 256, 275, 289): the
  first character is removed whatever it is. On an empty string \<open>begin()\<close> is
  \<open>end()\<close> and the call has no defined behaviour: \<open>None\<close>.
\<close>

definition erase_begin :: "string \<Rightarrow> string option" where
  "erase_begin s = (case s of [] \<Rightarrow> None | c # cs \<Rightarrow> Some cs)"

text \<open>
  \<open>line_from_file.front()\<close> (line 223) requires a non-empty string: \<open>None\<close> when
  the string is empty.
\<close>

definition front :: "string \<Rightarrow> char option" where
  "front s = (case s of [] \<Rightarrow> None | c # cs \<Rightarrow> Some c)"

section \<open>Input streams\<close>

text \<open>
  An \<open>std::ifstream\<close> that has been opened on a file: the bytes of the file, the
  read position and the two state bits the program can reach (\<open>badbit\<close> is never
  set by reads from a buffer). The operations are those of the C++ standard
  library that \<open>main\<close> calls; each one first constructs a sentry, which on a
  stream that is not \<open>good()\<close> sets \<open>failbit\<close> and lets the operation do nothing.
\<close>

record istream =
  buf :: string
  gpos :: nat
  eofbit :: bool
  failbit :: bool

definition ifstream_open :: "string \<Rightarrow> istream" where
  "ifstream_open contents = \<lparr>buf = contents, gpos = 0, eofbit = False, failbit = False\<rparr>"

text \<open>A default-constructed stream that was never opened (\<open>in2_file\<close> in single mode).\<close>

definition ifstream_unopened :: istream where
  "ifstream_unopened = \<lparr>buf = [], gpos = 0, eofbit = False, failbit = False\<rparr>"

definition good :: "istream \<Rightarrow> bool" where
  "good s = (\<not> eofbit s \<and> \<not> failbit s)"

definition unread :: "istream \<Rightarrow> string" where
  "unread s = drop (gpos s) (buf s)"

definition newline :: char where
  "newline = CHR 0x0A"

text \<open>
  \<open>std::getline(in, str)\<close>: with a failed sentry the string is left as it is.
  Otherwise the string is erased and characters are extracted up to the
  delimiter, which is extracted and not stored; reaching the end of the file
  sets \<open>eofbit\<close>, and \<open>failbit\<close> too when nothing at all was extracted.
\<close>

definition getline :: "istream \<Rightarrow> string \<Rightarrow> istream \<times> string" where
  "getline s str =
     (if \<not> good s then (s\<lparr>failbit := True\<rparr>, str)
      else let l = takeWhile (\<lambda>c. c \<noteq> newline) (unread s) in
        if length l < length (unread s)
        then (s\<lparr>gpos := gpos s + length l + 1\<rparr>, l)
        else (s\<lparr>gpos := gpos s + length l, eofbit := True, failbit := (l = [])\<rparr>, l))"

text \<open>
  \<open>in.ignore(std::numeric_limits<std::streamsize>::max(), '\n')\<close>: skips up to and
  including the next newline, without a limit on the count; the end of the file
  sets \<open>eofbit\<close> only.
\<close>

definition ignore_line :: "istream \<Rightarrow> istream" where
  "ignore_line s =
     (if \<not> good s then s\<lparr>failbit := True\<rparr>
      else let l = takeWhile (\<lambda>c. c \<noteq> newline) (unread s) in
        if length l < length (unread s)
        then s\<lparr>gpos := gpos s + length l + 1\<rparr>
        else s\<lparr>gpos := gpos s + length l, eofbit := True\<rparr>)"

text \<open>\<open>in.peek()\<close>: the next character without extracting it; \<open>None\<close> is \<open>EOF\<close>.\<close>

definition peek :: "istream \<Rightarrow> istream \<times> char option" where
  "peek s =
     (if \<not> good s then (s\<lparr>failbit := True\<rparr>, None)
      else case unread s of
          [] \<Rightarrow> (s\<lparr>eofbit := True\<rparr>, None)
        | c # cs \<Rightarrow> (s, Some c))"

text \<open>
  \<open>in.seekg(0, ios::beg)\<close>: clears \<open>eofbit\<close> first, then moves the position unless
  the stream has failed.
\<close>

definition seekg_beg :: "istream \<Rightarrow> istream" where
  "seekg_beg s =
     (let s1 = s\<lparr>eofbit := False\<rparr> in
      if failbit s1 then s1 else s1\<lparr>gpos := 0\<rparr>)"

section \<open>Work items and the reading state of main\<close>

text \<open>
  Modelled from the spec: ReadItem.hpp is not among the sources. The spec's Work
  Item has an identifier, a primary sequence and an optional second sequence; the
  two-argument constructor called at lines 266 and 300 fills the first two.
\<close>

record read_item =
  item_name :: string
  item_sequence1 :: string
  item_sequence2 :: "string option"

definition ReadItem :: "string \<Rightarrow> string \<Rightarrow> read_item" where
  "ReadItem n s = \<lparr>item_name = n, item_sequence1 = s, item_sequence2 = None\<rparr>"

text \<open>
  The local variables of \<open>main\<close> that the reading loops use, and the items pushed
  to \<open>myWorkQueue\<close> so far, oldest first.
\<close>

record pstate =
  in1_file :: istream
  in2_file :: istream
  line_from_file :: string
  name :: string
  sequence1 :: string
  pushed :: "read_item list"

text \<open>
  What stops a loop other than its guard: a library call outside its
  precondition, or a call of \<open>strip\<close> that does not return. The state is the
  one reached at that point.
\<close>

datatype fault = Undefined_behaviour | Nontermination

type_synonym result = "(fault \<times> pstate) + pstate"

text \<open>
  The FASTQ branch, lines 241-252 and again lines 274-285: the header is in
  \<open>line_from_file\<close>; the sequence line and the two skipped lines are read from
  \<open>in1_file\<close> in both copies of the branch.
\<close>

definition fastq_record :: "pstate \<Rightarrow> result" where
  "fastq_record st =
     (case erase_begin (line_from_file st) of
        None \<Rightarrow> Inl (Undefined_behaviour, st)
      | Some h \<Rightarrow>
          (case getline (in1_file st) h of (s1, l) \<Rightarrow>
            (case strip l of
               None \<Rightarrow> Inl (Nontermination, st\<lparr>in1_file := s1, line_from_file := l, name := h\<rparr>)
             | Some l' \<Rightarrow>
                 Inr (st\<lparr>in1_file := ignore_line (ignore_line s1),
                          line_from_file := l', name := h, sequence1 := l'\<rparr>))))"

text \<open>
  The inner loop of the FASTA branch, lines 260-263 and again lines 293-296.
  The guard calls \<open>peek\<close> once, and a second time when the first character is
  not \<open>>\<close>.
\<close>

function fasta_lines :: "pstate \<Rightarrow> pstate" where
  "fasta_lines st =
     (case peek (in1_file st) of (s1, c1) \<Rightarrow>
        if c1 = Some CHR ''>'' then st\<lparr>in1_file := s1\<rparr>
        else (case peek s1 of (s2, c2) \<Rightarrow>
          if c2 = None then st\<lparr>in1_file := s2\<rparr>
          else (case getline s2 (line_from_file st) of (s3, l) \<Rightarrow>
            fasta_lines (st\<lparr>in1_file := s3, line_from_file := l,
                             sequence1 := sequence1 st @ l\<rparr>))))"
  by pat_completeness auto


text \<open>
  The FASTA branch, lines 255-264 and again lines 288-297: the header is in
  \<open>line_from_file\<close>, the continuation lines are read from \<open>in1_file\<close> in both
  copies of the branch, and \<open>strip\<close> works on \<open>sequence1\<close> in place.
\<close>

definition fasta_record :: "pstate \<Rightarrow> result" where
  "fasta_record st =
     (case erase_begin (line_from_file st) of
        None \<Rightarrow> Inl (Undefined_behaviour, st)
      | Some h \<Rightarrow>
          (let st1 = fasta_lines (st\<lparr>line_from_file := h, name := h, sequence1 := []\<rparr>) in
           case strip (sequence1 st1) of
             None \<Rightarrow> Inl (Nontermination, st1)
           | Some q \<Rightarrow> Inr (st1\<lparr>sequence1 := q\<rparr>)))"

definition parse_record :: "bool \<Rightarrow> pstate \<Rightarrow> result" where
  "parse_record isFastQ st = (if isFastQ then fastq_record st else fasta_record st)"

text \<open>\<open>myWorkQueue->push(new ReadItem(name, sequence1))\<close>, lines 266 and 300.\<close>

definition push_item :: "pstate \<Rightarrow> pstate" where
  "push_item st = st\<lparr>pushed := pushed st @ [ReadItem (name st) (sequence1 st)]\<rparr>"

text \<open>
  The loop around the first file, lines 239-268. The guard is the stream after
  \<open>getline\<close>, converted to \<open>bool\<close>: true unless \<open>failbit\<close> is set.
\<close>

function read_file1 :: "bool \<Rightarrow> pstate \<Rightarrow> result" where
  "read_file1 isFastQ st =
     (case getline (in1_file st) (line_from_file st) of (s, l) \<Rightarrow>
        if failbit s then Inr (st\<lparr>in1_file := s, line_from_file := l\<rparr>)
        else (case parse_record isFastQ (st\<lparr>in1_file := s, line_from_file := l\<rparr>) of
            Inl f \<Rightarrow> Inl f
          | Inr st' \<Rightarrow> read_file1 isFastQ (push_item st')))"
  by pat_completeness auto

text \<open>
  The loop around the second file, lines 272-302. Its guard reads \<open>in2_file\<close>;
  its body is the body of the first loop, reading \<open>in1_file\<close>.
\<close>

function read_file2 :: "bool \<Rightarrow> pstate \<Rightarrow> result" where
  "read_file2 isFastQ st =
     (case getline (in2_file st) (line_from_file st) of (s, l) \<Rightarrow>
        if failbit s then Inr (st\<lparr>in2_file := s, line_from_file := l\<rparr>)
        else (case parse_record isFastQ (st\<lparr>in2_file := s, line_from_file := l\<rparr>) of
            Inl f \<Rightarrow> Inl f
          | Inr st' \<Rightarrow> read_file2 isFastQ (push_item st')))"
  by pat_completeness auto


section \<open>The command line\<close>

datatype mode = MEM | GREEDYBLOSUM

text \<open>The option variables of \<open>main\<close>, lines 39-54, with their initial values.\<close>

record settings =
  fmi_filename :: string
  in1_filename :: string
  in2_filename :: string
  output_filename :: string
  run_mode :: mode
  min_score :: int
  min_fragment_length :: int
  seed_length :: int
  mismatches :: int
  num_threads :: int
  verbose :: bool
  debug :: bool

definition initial_settings :: settings where
  "initial_settings =
     \<lparr>fmi_filename = [], in1_filename = [], in2_filename = [], output_filename = [],
      run_mode = MEM, min_score = 65, min_fragment_length = 11, seed_length = 7,
      mismatches = 0, num_threads = 1, verbose = False, debug = False\<rparr>"

text \<open>
  \<open>std::stoi\<close> of the standard library, base 10: leading white space is skipped,
  a sign is optional, the longest run of digits is converted and what follows it
  is ignored. No digit at all throws \<open>invalid_argument\<close>; a value outside the
  32-bit \<open>int\<close> throws \<open>out_of_range\<close>.
\<close>

datatype stoi_error = Invalid_argument | Out_of_range

definition isspace :: "char \<Rightarrow> bool" where
  "isspace c = (c \<in> set [CHR '' '', CHR 0x09, CHR 0x0A, CHR 0x0B, CHR 0x0C, CHR 0x0D])"

definition isdigit :: "char \<Rightarrow> bool" where
  "isdigit c = (CHR ''0'' \<le> c \<and> c \<le> CHR ''9'')"

definition digits_value :: "string \<Rightarrow> int" where
  "digits_value ds = foldl (\<lambda>a d. 10 * a + (of_char d - 48)) 0 ds"

definition stoi :: "string \<Rightarrow> stoi_error + int" where
  "stoi str =
     (let s1 = dropWhile isspace str;
          signed = (case s1 of [] \<Rightarrow> False | c # cs \<Rightarrow> c = CHR ''-'' \<or> c = CHR ''+'');
          negative = (case s1 of [] \<Rightarrow> False | c # cs \<Rightarrow> c = CHR ''-'');
          ds = takeWhile isdigit (if signed then tl s1 else s1)
      in if ds = [] then Inl Invalid_argument
         else let v = (if negative then - digits_value ds else digits_value ds)
           in if v < - (2 ^ 31) \<or> 2 ^ 31 - 1 < v then Inl Out_of_range else Inr v)"

section \<open>What main does, in order\<close>

text \<open>
  The calls of \<open>main\<close> that reach outside it, in the order in which the main
  thread issues them. \<open>Cerr\<close> is a diagnostic written to \<open>cerr\<close> (the text before
  \<open>endl\<close>), \<open>Usage\<close> the usage text printed by \<open>usage\<close>, which then exits. A
  thread is named by the value of the loop counter at which it is created. The
  messages under \<open>-v\<close> and \<open>-d\<close> are left out: they carry the time of day.
\<close>

datatype event =
    Cerr string
  | Usage
  | Fopen_fmi string
  | ReadIndexes
  | Config_init
  | Open_output string
  | New_queue nat
  | Spawn nat
  | Open_input string
  | Push read_item
  | PushedLast
  | Close_input string
  | Join nat
  | Delete_thread nat
  | Flush_output
  | Close_output
  | Delete_queue
  | Delete_config

text \<open>How the process ends: the two exit codes, or a fault of the reading loops.\<close>

datatype status = EXIT_SUCCESS | EXIT_FAILURE | Fault fault

text \<open>
  One round of the \<open>getopt\<close> loop, lines 59-145, for the option character and
  argument that \<open>getopt\<close> returned. \<open>None\<close>: \<open>usage\<close> was called and the process
  has exited. The handlers of \<open>invalid_argument\<close> and \<open>out_of_range\<close> write a
  message and leave the variable as it was.
\<close>

definition numeric_option ::
  "string \<Rightarrow> string \<Rightarrow> (int \<Rightarrow> settings) \<Rightarrow> settings \<Rightarrow> event list \<times> settings option" where
  "numeric_option msg optarg assign cfg =
     (case stoi optarg of
        Inr v \<Rightarrow> ([], Some (assign v))
      | Inl Invalid_argument \<Rightarrow> ([Cerr (msg @ optarg)], Some cfg)
      | Inl Out_of_range \<Rightarrow> ([Cerr (msg @ optarg)], Some cfg))"

definition handle_option :: "settings \<Rightarrow> char \<times> string \<Rightarrow> event list \<times> settings option" where
  "handle_option cfg opt =
     (case opt of (c, optarg) \<Rightarrow>
        if c = CHR ''a'' then
          (if optarg = ''mem'' then ([], Some (cfg\<lparr>run_mode := MEM\<rparr>))
           else if optarg = ''greedyblosum'' then ([], Some (cfg\<lparr>run_mode := GREEDYBLOSUM\<rparr>))
           else if optarg = ''greedy'' then ([], Some (cfg\<lparr>run_mode := GREEDYBLOSUM\<rparr>))
           else ([Cerr ''-a must be a valid mode.'', Usage], None))
        else if c = CHR ''h'' then ([Usage], None)
        else if c = CHR ''d'' then ([], Some (cfg\<lparr>debug := True\<rparr>))
        else if c = CHR ''v'' then ([], Some (cfg\<lparr>verbose := True\<rparr>))
        else if c = CHR ''o'' then ([], Some (cfg\<lparr>output_filename := optarg\<rparr>))
        else if c = CHR ''f'' then ([], Some (cfg\<lparr>fmi_filename := optarg\<rparr>))
        else if c = CHR ''i'' then ([], Some (cfg\<lparr>in1_filename := optarg\<rparr>))
        else if c = CHR ''j'' then ([], Some (cfg\<lparr>in2_filename := optarg\<rparr>))
        else if c = CHR ''l'' then
          numeric_option ''Invalid argument in -l '' optarg (\<lambda>v. cfg\<lparr>seed_length := v\<rparr>) cfg
        else if c = CHR ''s'' then
          numeric_option ''Invalid argument in -s '' optarg (\<lambda>v. cfg\<lparr>min_score := v\<rparr>) cfg
        else if c = CHR ''m'' then
          numeric_option ''Invalid argument in -m '' optarg (\<lambda>v. cfg\<lparr>min_fragment_length := v\<rparr>) cfg
        else if c = CHR ''e'' then
          numeric_option ''Invalid numerical argument in -e '' optarg (\<lambda>v. cfg\<lparr>mismatches := v\<rparr>) cfg
        else if c = CHR ''z'' then
          numeric_option ''Invalid argument in -z '' optarg (\<lambda>v. cfg\<lparr>num_threads := v\<rparr>) cfg
        else ([Usage], None))"

text \<open>The \<open>getopt\<close> loop over the options of the command line, in order.\<close>

fun getopt_loop :: "settings \<Rightarrow> (char \<times> string) list \<Rightarrow> event list \<times> settings option" where
  "getopt_loop cfg [] = ([], Some cfg)"
| "getopt_loop cfg (opt # opts) =
     (case handle_option cfg opt of
        (ev, None) \<Rightarrow> (ev, None)
      | (ev, Some cfg') \<Rightarrow>
          (case getopt_loop cfg' opts of (ev', r) \<Rightarrow> (ev @ ev', r)))"

text \<open>
  The checks of lines 146-152, in order; each one that fails writes its message
  and calls \<open>usage\<close>. \<open>None\<close>: all passed.
\<close>

definition check_settings :: "settings \<Rightarrow> event list option" where
  "check_settings cfg =
     (if min_score cfg \<le> 0 then
        Some [Cerr ''Error: Min Score (-s) must be greater than 0.'', Usage]
      else if num_threads cfg \<le> 0 then
        Some [Cerr ''Error: Number of threads (-z) must be greater than 0.'', Usage]
      else if min_fragment_length cfg \<le> 0 then
        Some [Cerr ''Error: Min fragment length (-m) must be greater than 0.'', Usage]
      else if mismatches cfg < 0 then
        Some [Cerr ''Error: Number of mismatches must be >= 0.'', Usage]
      else if seed_length cfg < 7 then
        Some [Cerr ''Error: Seed length must be >= 7.'', Usage]
      else if length (fmi_filename cfg) = 0 then
        Some [Cerr ''Error: Please specify the location of the FMI file, using the -f option.'', Usage]
      else if length (in1_filename cfg) = 0 then
        Some [Cerr ''Error: Please specify the location of the input file, using the -i option.'', Usage]
      else None)"

text \<open>
  The files main meets: what a file holds when it is opened for reading
  (\<open>None\<close>: it cannot be opened), and whether a file can be opened for writing.
\<close>

record world =
  readable :: "string \<Rightarrow> string option"
  writable :: "string \<Rightarrow> bool"

text \<open>
  Lines 165-205: the index is read, the output is opened, the queue of capacity
  500 is made and the threads are started. \<open>readIndexes\<close> and \<open>Config::init\<close>
  belong to other files and are events only. The flag tells whether main goes on.
\<close>

definition startup :: "world \<Rightarrow> settings \<Rightarrow> event list \<times> bool" where
  "startup w cfg =
     (case readable w (fmi_filename cfg) of
        None \<Rightarrow>
          ([Fopen_fmi (fmi_filename cfg),
            Cerr (''Could not open file '' @ fmi_filename cfg), Usage], False)
      | Some index \<Rightarrow>
          (let ev1 = [Fopen_fmi (fmi_filename cfg), ReadIndexes, Config_init] in
           if length (output_filename cfg) > 0 \<and> \<not> writable w (output_filename cfg) then
             (ev1 @ [Cerr (''Output file: '' @ output_filename cfg),
                     Open_output (output_filename cfg),
                     Cerr (''Could not open file '' @ output_filename cfg @ '' for writing'')],
              False)
           else
             (ev1 @
              (if length (output_filename cfg) > 0
               then [Cerr (''Output file: '' @ output_filename cfg),
                     Open_output (output_filename cfg)]
               else []) @
              [New_queue 500] @ map Spawn [0..<nat (num_threads cfg)], True)))"

text \<open>
  Lines 218-231: the first line of the first file decides the format, then the
  stream is set back to the start. \<open>Inl\<close>: the process ends here with the status.
\<close>

definition detect :: "string \<Rightarrow> istream \<Rightarrow> string \<Rightarrow> (event list \<times> status) + (bool \<times> istream \<times> string)" where
  "detect filename in1 line =
     (case getline in1 line of (s, l) \<Rightarrow>
        (case front l of
           None \<Rightarrow> Inl ([], Fault Undefined_behaviour)
         | Some fileTypeIdentifier \<Rightarrow>
             if fileTypeIdentifier = CHR ''@'' then Inr (True, seekg_beg s, l)
             else if fileTypeIdentifier \<noteq> CHR ''>'' then
               Inl ([Cerr (''Auto-detection of file type for file '' @ filename @ '' failed.'')],
                    EXIT_FAILURE)
             else Inr (False, seekg_beg s, l)))"

text \<open>
  Lines 239-309 once the format is known: the loop over the first file, the
  loop over the second one in paired mode, \<open>pushedLast\<close> and the closing of the
  streams.
\<close>

definition produce :: "bool \<Rightarrow> bool \<Rightarrow> pstate \<Rightarrow> result" where
  "produce isFastQ paired st =
     (case read_file1 isFastQ st of
        Inl f \<Rightarrow> Inl f
      | Inr st1 \<Rightarrow> if paired then read_file2 isFastQ st1 else Inr st1)"

definition after_detect :: "settings \<Rightarrow> bool \<Rightarrow> bool \<Rightarrow> pstate \<Rightarrow> event list \<times> status option" where
  "after_detect cfg isFastQ paired st =
     (case produce isFastQ paired st of
        Inl (f, st') \<Rightarrow> (map Push (pushed st'), Some (Fault f))
      | Inr st' \<Rightarrow>
          (map Push (pushed st') @ [PushedLast, Close_input (in1_filename cfg)] @
           (if paired then [Close_input (in2_filename cfg)] else []), None))"

text \<open>
  The variables of lines 207, 219, 233 and 234 when the loops begin: the two
  streams, the line that the detection has read, and two empty strings.
\<close>

definition start_state :: "istream \<Rightarrow> istream \<Rightarrow> string \<Rightarrow> pstate" where
  "start_state in1 in2 line =
     \<lparr>in1_file = in1, in2_file = in2, line_from_file = line, name = [], sequence1 = [],
      pushed = []\<rparr>"

text \<open>
  Lines 207-309: the input streams are opened, the format is detected and the
  records are pushed. \<open>Some\<close>: the process has ended with the status.
\<close>

definition read_inputs :: "world \<Rightarrow> settings \<Rightarrow> event list \<times> status option" where
  "read_inputs w cfg =
     (case readable w (in1_filename cfg) of
        None \<Rightarrow>
          ([Open_input (in1_filename cfg),
            Cerr (''Could not open file '' @ in1_filename cfg)], Some EXIT_FAILURE)
      | Some c1 \<Rightarrow>
          if length (in2_filename cfg) > 0 then
            (case readable w (in2_filename cfg) of
               None \<Rightarrow>
                 ([Open_input (in1_filename cfg), Open_input (in2_filename cfg),
                   Cerr (''Could not open file '' @ in2_filename cfg)], Some EXIT_FAILURE)
             | Some c2 \<Rightarrow>
                 (case detect (in1_filename cfg) (ifstream_open c1) [] of
                    Inl (ev, stat) \<Rightarrow>
                      ([Open_input (in1_filename cfg), Open_input (in2_filename cfg)] @ ev,
                       Some stat)
                  | Inr (isFastQ, in1, line) \<Rightarrow>
                      (case after_detect cfg isFastQ True
                              (start_state in1 (ifstream_open c2) line) of
                         (ev, r) \<Rightarrow>
                           ([Open_input (in1_filename cfg), Open_input (in2_filename cfg)] @ ev,
                            r))))
          else
            (case detect (in1_filename cfg) (ifstream_open c1) [] of
               Inl (ev, stat) \<Rightarrow> ([Open_input (in1_filename cfg)] @ ev, Some stat)
             | Inr (isFastQ, in1, line) \<Rightarrow>
                 (case after_detect cfg isFastQ False
                         (start_state in1 ifstream_unopened line) of
                    (ev, r) \<Rightarrow> ([Open_input (in1_filename cfg)] @ ev, r))))"

text \<open>
  Lines 311-327: the threads are joined from the front of the deque, the output
  is flushed and closed, the queue and the configuration are deleted.
\<close>

fun join_all :: "nat list \<Rightarrow> event list" where
  "join_all [] = []"
| "join_all (t # ts) = Join t # Delete_thread t # join_all ts"

definition shutdown :: "settings \<Rightarrow> event list" where
  "shutdown cfg =
     join_all [0..<nat (num_threads cfg)] @ [Flush_output] @
     (if length (output_filename cfg) > 0 then [Close_output] else []) @
     [Delete_queue, Delete_config]"

text \<open>\<open>main\<close> on the options that \<open>getopt\<close> yields, in the world of files \<open>w\<close>.\<close>

definition main :: "world \<Rightarrow> (char \<times> string) list \<Rightarrow> event list \<times> status" where
  "main w opts =
     (case getopt_loop initial_settings opts of
        (ev0, None) \<Rightarrow> (ev0, EXIT_FAILURE)
      | (ev0, Some cfg) \<Rightarrow>
          (case check_settings cfg of
             Some ev \<Rightarrow> (ev0 @ ev, EXIT_FAILURE)
           | None \<Rightarrow>
               (case startup w cfg of
                  (ev1, False) \<Rightarrow> (ev0 @ ev1, EXIT_FAILURE)
                | (ev1, True) \<Rightarrow>
                    (case read_inputs w cfg of
                       (ev2, Some stat) \<Rightarrow> (ev0 @ ev1 @ ev2, stat)
                     | (ev2, None) \<Rightarrow> (ev0 @ ev1 @ ev2 @ shutdown cfg, EXIT_SUCCESS)))))"

section \<open>Lines and records, as the specification words them\<close>

text \<open>
  The lines of a text: each ends at a newline or at the end of the text; a
  newline at the very end does not open a further line.
\<close>

function lines_of :: "string \<Rightarrow> string list" where
  "lines_of s =
     (if s = [] then []
      else takeWhile (\<lambda>c. c \<noteq> newline) s #
           lines_of (drop (Suc (length (takeWhile (\<lambda>c. c \<noteq> newline) s))) s))"
  by pat_completeness auto

definition begins_with :: "char \<Rightarrow> string \<Rightarrow> bool" where
  "begins_with c l = (case l of [] \<Rightarrow> False | x # xs \<Rightarrow> x = c)"

definition letters_only :: "string \<Rightarrow> string" where
  "letters_only s = filter (\<lambda>c. c \<in> set ascii_letters) s"

text \<open>
  FASTA, section 4.1 of the specification: a record begins at a line starting
  with \<open>>\<close>; the rest of that line is the identifier; the lines up to the next
  marker line or the end are concatenated, and the non-alphabetic characters
  removed.
\<close>

function fasta_items :: "string list \<Rightarrow> (string \<times> string) list" where
  "fasta_items [] = []"
| "fasta_items (h # ls) =
     (tl h, letters_only (concat (takeWhile (\<lambda>l. \<not> begins_with CHR ''>'' l) ls))) #
     fasta_items (dropWhile (\<lambda>l. \<not> begins_with CHR ''>'' l) ls)"
  by pat_completeness auto

definition valid_fasta :: "string \<Rightarrow> bool" where
  "valid_fasta text = (case text of [] \<Rightarrow> False | c # cs \<Rightarrow> c = CHR ''>'')"

text \<open>
  FASTQ, section 4.1: a record is exactly four lines, a header beginning with
  \<open>@\<close>, a sequence line, a separator line and a quality line.
\<close>

fun fastq_items :: "string list \<Rightarrow> (string \<times> string) list" where
  "fastq_items (h # s # p # q # rest) = (tl h, letters_only s) # fastq_items rest"
| "fastq_items ls = []"

fun valid_fastq_lines :: "string list \<Rightarrow> bool" where
  "valid_fastq_lines [] = True"
| "valid_fastq_lines (h # s # p # q # rest) = (begins_with CHR ''@'' h \<and> valid_fastq_lines rest)"
| "valid_fastq_lines ls = False"

definition valid_fastq :: "string \<Rightarrow> bool" where
  "valid_fastq text = (text \<noteq> [] \<and> valid_fastq_lines (lines_of text))"

definition item_pair :: "read_item \<Rightarrow> string \<times> string" where
  "item_pair it = (item_name it, item_sequence1 it)"

section \<open>Termination of the loops\<close>

lemma peek_Some:
  "peek s = (s', Some c) \<Longrightarrow> s' = s \<and> good s \<and> gpos s < length (buf s)"
proof -
  assume p: "peek s = (s', Some c)"
  then have g: "good s" by (auto simp: peek_def split: if_splits list.splits)
  with p have "unread s \<noteq> []" and "s' = s"
    by (auto simp: peek_def split: list.splits)
  then show ?thesis using g by (simp add: unread_def)
qed

lemma peek_None_good:
  "peek s = (s', None) \<Longrightarrow> \<not> good s'"
  by (auto simp: peek_def good_def split: if_splits list.splits)

lemma getline_good_advances:
  assumes g: "good s" and lt: "gpos s < length (buf s)" and gl: "getline s str = (s', l)"
  shows "buf s' = buf s \<and> gpos s < gpos s' \<and>
         length (buf s') - gpos s' < length (buf s) - gpos s"
proof -
  let ?l = "takeWhile (\<lambda>c. c \<noteq> newline) (unread s)"
  have le: "length ?l \<le> length (unread s)" by (rule length_takeWhile_le)
  have lu: "length (unread s) = length (buf s) - gpos s" by (simp add: unread_def)
  show ?thesis
  proof (cases "length ?l < length (unread s)")
    case True
    with g gl have "s' = s\<lparr>gpos := gpos s + length ?l + 1\<rparr>"
      by (auto simp: getline_def Let_def)
    with True lu lt show ?thesis by simp
  next
    case False
    with le have eq: "length ?l = length (unread s)" by simp
    from False g gl have "s' = s\<lparr>gpos := gpos s + length ?l, eofbit := True, failbit := (?l = [])\<rparr>"
      by (auto simp: getline_def Let_def)
    with eq lu lt show ?thesis by simp
  qed
qed

termination fasta_lines
proof (relation "measure (\<lambda>st. length (buf (in1_file st)) - gpos (in1_file st))")
  show "wf (measure (\<lambda>st. length (buf (in1_file st)) - gpos (in1_file st)))" by simp
next
  fix st :: pstate and x s1 c1 xa s2 c2 xb s3 l
  assume p1: "(s1, c1) = peek (in1_file st)" and ne1: "c1 \<noteq> Some CHR ''>''"
    and p2: "(s2, c2) = peek s1" and ne2: "c2 \<noteq> None"
    and gl: "(s3, l) = getline s2 (line_from_file st)"
  from ne2 obtain c where c2: "c2 = Some c" by auto
  from p2 c2 have a: "s2 = s1 \<and> good s1 \<and> gpos s1 < length (buf s1)"
    using peek_Some [of s1 s2 c] by simp
  have s1: "s1 = in1_file st"
  proof (cases c1)
    case None
    with p1 a show ?thesis using peek_None_good [of "in1_file st" s1] by simp
  next
    case (Some d)
    with p1 show ?thesis using peek_Some [of "in1_file st" s1 d] by simp
  qed
  from a s1 have "good s2" and "gpos s2 < length (buf s2)" and "s2 = in1_file st"
    by simp_all
  with gl have "length (buf s3) - gpos s3
      < length (buf (in1_file st)) - gpos (in1_file st)"
    using getline_good_advances [of s2 "line_from_file st" s3 l] by metis
  then show "(st\<lparr>in1_file := s3, line_from_file := l, sequence1 := sequence1 st @ l\<rparr>, st)
      \<in> measure (\<lambda>st. length (buf (in1_file st)) - gpos (in1_file st))"
    by simp
qed


declare fasta_lines.simps [simp del]

text \<open>The number of bytes between the read position and the end of the file.\<close>

definition left :: "istream \<Rightarrow> nat" where
  "left s = length (buf s) - gpos s"

lemma getline_left: "getline s str = (s', l) \<Longrightarrow> left s' \<le> left s"
  by (auto simp: getline_def left_def Let_def split: if_splits)

lemma getline_ok_left:
  assumes "getline s str = (s', l)" and "\<not> failbit s'"
  shows "left s' < left s"
proof -
  from assms have g: "good s"
    by (auto simp: getline_def split: if_splits)
  have "gpos s < length (buf s)"
  proof (rule ccontr)
    assume "\<not> gpos s < length (buf s)"
    then have "unread s = []" by (simp add: unread_def)
    with g assms show False by (auto simp: getline_def)
  qed
  with g assms(1) show ?thesis
    using getline_good_advances [of s str s' l] by (auto simp: left_def)
qed

lemma ignore_line_left: "left (ignore_line s) \<le> left s"
  by (auto simp: ignore_line_def left_def Let_def)

lemma peek_left: "peek s = (s', c) \<Longrightarrow> left s' = left s"
  by (auto simp: peek_def left_def split: if_splits list.splits)

lemma fasta_lines_left: "left (in1_file (fasta_lines st)) \<le> left (in1_file st)"
proof (induction st rule: fasta_lines.induct)
  case (1 st)
  obtain s1 c1 where p1: "peek (in1_file st) = (s1, c1)" by force
  obtain s2 c2 where p2: "peek s1 = (s2, c2)" by force
  obtain s3 l where gl: "getline s2 (line_from_file st) = (s3, l)" by force
  have l12: "left s2 = left (in1_file st)"
    using peek_left [OF p1] peek_left [OF p2] by simp
  show ?case
  proof (cases "c1 = Some CHR ''>''")
    case True
    with p1 show ?thesis
      by (subst fasta_lines.simps) (simp add: peek_left [OF p1])
  next
    case c1: False
    show ?thesis
    proof (cases "c2 = None")
      case True
      with c1 p1 p2 l12 show ?thesis
        by (subst fasta_lines.simps) simp
    next
      case False
      let ?st = "st\<lparr>in1_file := s3, line_from_file := l, sequence1 := sequence1 st @ l\<rparr>"
      have "left (in1_file (fasta_lines ?st)) \<le> left (in1_file ?st)"
        using "1.IH" [OF p1 [symmetric] c1 p2 [symmetric] False gl [symmetric]] .
      also have "\<dots> \<le> left (in1_file st)"
        using getline_left [OF gl] l12 by simp
      finally show ?thesis
        using c1 False p1 p2 gl by (subst fasta_lines.simps) auto
    qed
  qed
qed

lemma fasta_lines_in2: "in2_file (fasta_lines st) = in2_file st"
proof (induction st rule: fasta_lines.induct)
  case (1 st)
  obtain s1 c1 where p1: "peek (in1_file st) = (s1, c1)" by force
  obtain s2 c2 where p2: "peek s1 = (s2, c2)" by force
  obtain s3 l where gl: "getline s2 (line_from_file st) = (s3, l)" by force
  show ?case
  proof (cases "c1 = Some CHR ''>'' \<or> c2 = None")
    case True
    with p1 p2 show ?thesis by (subst fasta_lines.simps) auto
  next
    case False
    then have c1: "c1 \<noteq> Some CHR ''>''" and c2: "c2 \<noteq> None" by simp_all
    show ?thesis
      using "1.IH" [OF p1 [symmetric] c1 p2 [symmetric] c2 gl [symmetric]] c1 c2 p1 p2 gl
      by (subst fasta_lines.simps) auto
  qed
qed

lemma parse_record_left:
  "parse_record q st = Inr st' \<Longrightarrow> left (in1_file st') \<le> left (in1_file st)"
proof (cases q)
  case True
  assume a: "parse_record q st = Inr st'"
  from a True obtain h where h: "erase_begin (line_from_file st) = Some h"
    by (auto simp: parse_record_def fastq_record_def split: option.splits)
  obtain s1 l where gl: "getline (in1_file st) h = (s1, l)" by force
  from a True h gl have "in1_file st' = ignore_line (ignore_line s1)"
    by (auto simp: parse_record_def fastq_record_def split: option.splits)
  then show ?thesis
    using getline_left [OF gl] ignore_line_left [of s1] ignore_line_left [of "ignore_line s1"]
    by simp
next
  case False
  assume a: "parse_record q st = Inr st'"
  from a False obtain h where h: "erase_begin (line_from_file st) = Some h"
    by (auto simp: parse_record_def fasta_record_def split: option.splits)
  let ?st = "st\<lparr>line_from_file := h, name := h, sequence1 := []\<rparr>"
  from a False h have "in1_file st' = in1_file (fasta_lines ?st)"
    by (auto simp: parse_record_def fasta_record_def Let_def split: option.splits)
  then show ?thesis using fasta_lines_left [of ?st] by simp
qed

lemma parse_record_in2:
  "parse_record q st = Inr st' \<Longrightarrow> in2_file st' = in2_file st"
  by (cases "getline (in1_file st) (the (erase_begin (line_from_file st)))")
     (auto simp: parse_record_def fastq_record_def fasta_record_def Let_def fasta_lines_in2
        split: option.splits if_splits)

termination read_file1
proof (relation "measure (\<lambda>(q, st). left (in1_file st))")
  show "wf (measure (\<lambda>(q, st). left (in1_file st)))" by simp
next
  fix isFastQ :: bool and st :: pstate and x s l st'
  assume gl: "(s, l) = getline (in1_file st) (line_from_file st)"
    and ok: "\<not> failbit s"
    and pr: "parse_record isFastQ (st\<lparr>in1_file := s, line_from_file := l\<rparr>) = Inr st'"
  have "left s < left (in1_file st)"
    using getline_ok_left [OF gl [symmetric] ok] .
  moreover have "left (in1_file st') \<le> left s"
    using parse_record_left [OF pr] by simp
  ultimately show "((isFastQ, push_item st'), isFastQ, st) \<in> measure (\<lambda>(q, st). left (in1_file st))"
    by (simp add: push_item_def)
qed

termination read_file2
proof (relation "measure (\<lambda>(q, st). left (in2_file st))")
  show "wf (measure (\<lambda>(q, st). left (in2_file st)))" by simp
next
  fix isFastQ :: bool and st :: pstate and x s l st'
  assume gl: "(s, l) = getline (in2_file st) (line_from_file st)"
    and ok: "\<not> failbit s"
    and pr: "parse_record isFastQ (st\<lparr>in2_file := s, line_from_file := l\<rparr>) = Inr st'"
  have "left s < left (in2_file st)"
    using getline_ok_left [OF gl [symmetric] ok] .
  moreover have "in2_file st' = s"
    using parse_record_in2 [OF pr] by simp
  ultimately show "((isFastQ, push_item st'), isFastQ, st) \<in> measure (\<lambda>(q, st). left (in2_file st))"
    by (simp add: push_item_def)
qed


termination lines_of
  by (relation "measure length") auto

termination fasta_items
proof (relation "measure length")
  show "wf (measure (length :: string list \<Rightarrow> nat))" by simp
next
  fix h :: string and ls :: "string list"
  have "length (dropWhile (\<lambda>l. \<not> begins_with CHR ''>'' l) ls) \<le> length ls"
    by (rule length_dropWhile_le)
  then show "(dropWhile (\<lambda>l. \<not> begins_with CHR ''>'' l) ls, h # ls) \<in> measure length"
    by simp
qed

declare read_file1.simps [simp del] read_file2.simps [simp del] lines_of.simps [simp del]

section \<open>strip keeps the letters\<close>

lemma letters_isalpha: "c \<in> set ascii_letters \<Longrightarrow> isalpha c"
  unfolding ascii_letters_def isalpha_def less_eq_char_def by auto

lemma isalpha_letters:
  assumes a: "isalpha c"
  shows "c \<in> set ascii_letters"
proof -
  define n :: nat where "n = of_char c"
  have c: "c = char_of n" by (simp add: n_def)
  from a have "(65 \<le> n \<and> n \<le> 90) \<or> (97 \<le> n \<and> n \<le> 122)"
    unfolding isalpha_def less_eq_char_def n_def by auto
  then have "n \<in> set (map (of_char :: char \<Rightarrow> nat) ascii_letters)"
    unfolding ascii_letters_def by simp arith
  then show ?thesis unfolding c by auto
qed

lemma isalpha_iff: "isalpha c \<longleftrightarrow> c \<in> set ascii_letters"
  using letters_isalpha isalpha_letters by blast

text \<open>
  From any position inside the string the loop returns: what lies before the
  iterator stays, what lies after it is filtered. The number of characters from
  the iterator to the end goes down in every round.
\<close>

lemma strip_from_filter:
  "i \<le> length s \<Longrightarrow>
   strip_from s (int i) = Some (take i s @ filter isalpha (drop i s))"
proof (induction "length s - i" arbitrary: s i rule: less_induct)
  case less
  show ?case
  proof (cases "i = length s")
    case True
    then show ?thesis by (simp add: strip_from.simps)
  next
    case False
    with less.prems have lt: "i < length s" by simp
    then have d: "drop i s = s ! i # drop (Suc i) s"
      by (simp add: Cons_nth_drop_Suc)
    show ?thesis
    proof (cases "isalpha (s ! i)")
      case True
      have "strip_from s (int i) = strip_from s (int (Suc i))"
        using lt True by (subst strip_from.simps) (simp add: add.commute)
      also have "\<dots> = Some (take (Suc i) s @ filter isalpha (drop (Suc i) s))"
        using lt by (intro less.hyps) auto
      finally show ?thesis using True lt d by (simp add: take_Suc_conv_app_nth)
    next
      case False
      let ?e = "erase_at s (int i)"
      have e: "?e = take i s @ drop (Suc i) s" by (simp add: erase_at_def)
      have len: "length ?e = length s - 1" using lt by (simp add: e)
      have "strip_from s (int i) = strip_from ?e (int i)"
        using lt False by (subst strip_from.simps) simp
      also have "\<dots> = Some (take i ?e @ filter isalpha (drop i ?e))"
        using lt len by (intro less.hyps) auto
      also have "take i ?e = take i s" using lt by (simp add: e)
      also have "drop i ?e = drop (Suc i) s" using lt by (simp add: e)
      finally show ?thesis using False d by simp
    qed
  qed
qed

lemma strip_letters_only: "strip s = Some (letters_only s)"
  using strip_from_filter [of 0 s] by (simp add: strip_def letters_only_def isalpha_iff [abs_def])

text \<open>
  C10. For every string, \<open>strip\<close> returns, and what it returns is the string
  with exactly the characters outside \<open>A-Z\<close> and \<open>a-z\<close> removed: the characters
  among the 52 ASCII letters are kept, each as often as it occurs and in the
  order in which they stood; every other byte is dropped.
\<close>

theorem strip_removes_exactly_non_letters:
  "strip s = Some (filter (\<lambda>c. c \<in> set ascii_letters) s)"
  using strip_from_filter [of 0 s] by (simp add: strip_def isalpha_iff [abs_def])

end
